theory Spec2Isabelle
  imports Main
begin

section \<open>Values exchanged with the browser and the two services\<close>

text \<open>
  The program is the React component \<open>App\<close> of \<open>frontend/src/App.jsx\<close>. Its
  \<open>useState\<close> cells are the fields of one record, every handler is a function from
  state to state, and an \<open>async\<close> handler is cut at its \<open>await\<close>: the part that runs
  when the handler is called (it ends by putting the request on the wire), the continuation
  that runs when the promise is fulfilled, and the one that runs when it is rejected (each
  followed by the \<open>finally\<close> block).

  JavaScript strings are modelled as \<open>string\<close>, lists of 8-bit characters. A property that
  may be missing from a JSON object is an \<open>option\<close>, \<open>None\<close> standing for \<open>undefined\<close>.
\<close>

record image_file =
  file_name :: string
  file_type :: string
  file_data :: string

text \<open>One entry of \<open>plant_data\<close>. The entry's \<open>error\<close> property is called \<open>plant_error\<close>
  here, since \<open>error\<close> is also a state cell of the component.\<close>

record plant_record =
  name :: "string option"
  scientific_name :: "string option"
  common_name :: "string option"
  local_name :: "string option"
  family_name :: "string option"
  medicinal_uses :: "string option"
  plant_error :: "string option"

text \<open>The body of a successful \<open>/predict\<close> answer, \<open>response.data\<close>.\<close>

record detect_data =
  annotated_image :: string
  plant_data :: "plant_record list option"

text \<open>The body sent to \<open>/chat\<close> and the body of its successful answer (whose \<open>error\<close>
  property is called \<open>chat_error\<close> here).\<close>

record chat_request =
  plant_name :: string
  message :: string

record chat_data =
  response :: "string option"
  chat_error :: "string option"

datatype sender = User | Bot

text \<open>An element of \<open>chatMessages\<close>: \<open>{ sender, text }\<close>. The text of a bot message built
  from a chat answer is \<open>response || error\<close>, which is \<open>undefined\<close> when neither is there.\<close>

record chat_message =
  msg_sender :: sender
  msg_text :: "string option"

datatype tab = DetectTab | ChatTab

subsection \<open>JavaScript operators used by the handlers\<close>

text \<open>Truthiness of an optional string: \<open>undefined\<close> and \<open>""\<close> are falsy.\<close>

definition truthy :: "string option \<Rightarrow> bool" where
  "truthy v = (case v of None \<Rightarrow> False | Some t \<Rightarrow> t \<noteq> [])"

text \<open>\<open>a || b\<close>: the left operand when it is truthy, the right operand otherwise.\<close>

definition js_or :: "string option \<Rightarrow> string option \<Rightarrow> string option" where
  "js_or a b = (if truthy a then a else b)"

text \<open>\<open>String.prototype.trim\<close> strips white space and line terminators from both ends;
  within 8-bit characters these are TAB, LF, VT, FF, CR, SPACE and NBSP.\<close>

definition is_space :: "char \<Rightarrow> bool" where
  "is_space c = (c \<in> set [CHR 0x09, CHR 0x0A, CHR 0x0B, CHR 0x0C, CHR 0x0D, CHR 0x20, CHR 0xA0])"

definition trim :: "string \<Rightarrow> string" where
  "trim t = rev (dropWhile is_space (rev (dropWhile is_space t)))"

definition drop_nth :: "nat \<Rightarrow> 'a list \<Rightarrow> 'a list" where
  "drop_nth i xs = take i xs @ drop (Suc i) xs"

section \<open>The component state\<close>

text \<open>
  The first eleven fields are the \<open>useState\<close> cells of \<open>App\<close>, under their own names.
  The last three are the part of the browser that the handlers act on:
  \<open>objectUrls\<close> counts the URLs handed out by \<open>URL.createObjectURL\<close> (the n-th call
  returns the URL numbered n, so every call returns a fresh one), \<open>predictInFlight\<close> holds
  the file of every \<open>POST /predict\<close> that has been sent and not yet answered, and
  \<open>chatInFlight\<close> the body of every such \<open>POST /chat\<close>.
\<close>

record app =
  activeTab :: tab
  selectedFile :: "image_file option"
  previewUrl :: "nat option"
  isLoading :: bool
  error :: "string option"
  detectionResult :: "detect_data option"
  chatPlantName :: string
  chatInput :: string
  chatMessages :: "chat_message list"
  isChatLoading :: bool
  isDark :: bool
  objectUrls :: nat
  predictInFlight :: "image_file list"
  chatInFlight :: "chat_request list"

definition default_plant :: string where
  "default_plant = ''your plant''"

definition initial :: app where
  "initial = \<lparr> activeTab = DetectTab, selectedFile = None, previewUrl = None,
     isLoading = False, error = None, detectionResult = None,
     chatPlantName = default_plant, chatInput = [], chatMessages = [],
     isChatLoading = False, isDark = False,
     objectUrls = 0, predictInFlight = [], chatInFlight = [] \<rparr>"

section \<open>File handling\<close>

definition clearResults :: "'a app_scheme \<Rightarrow> 'a app_scheme" where
  "clearResults s = s\<lparr> detectionResult := None, error := None,
     chatMessages := [], chatPlantName := default_plant \<rparr>"

text \<open>\<open>handleFileChange\<close> reads \<open>e.target.files[0]\<close>, which is \<open>undefined\<close> when the
  dialog was cancelled: the argument is that optional file.\<close>

definition handleFileChange :: "image_file option \<Rightarrow> 'a app_scheme \<Rightarrow> 'a app_scheme" where
  "handleFileChange target s =
     (case target of
        None \<Rightarrow> s
      | Some f \<Rightarrow>
          clearResults (s\<lparr> selectedFile := Some f, previewUrl := Some (objectUrls s),
                           objectUrls := Suc (objectUrls s) \<rparr>))"

text \<open>\<open>clearSelection\<close> also empties the DOM file input through \<open>fileInputRef\<close>; the input's
  value is not read by any handler and is not part of the state.\<close>

definition clearSelection :: "'a app_scheme \<Rightarrow> 'a app_scheme" where
  "clearSelection s = clearResults (s\<lparr> selectedFile := None, previewUrl := None \<rparr>)"

section \<open>Detection\<close>

definition detection_error :: string where
  "detection_error = ''An error occurred during detection. Is the backend server running?''"

definition greeting :: "string \<Rightarrow> chat_message" where
  "greeting plantName = \<lparr> msg_sender = Bot, msg_text =
     Some (''I've identified '' @ plantName @ ''. Feel free to ask me any questions about it!'') \<rparr>"

definition no_plant_message :: chat_message where
  "no_plant_message = \<lparr> msg_sender = Bot, msg_text =
     Some ''I couldn't detect a specific plant, but you can still ask general questions.'' \<rparr>"

text \<open>The part of \<open>handleSubmitDetection\<close> up to the \<open>await\<close>: the guard, the three state
  updates, and the request, which carries the selected file.\<close>

definition handleSubmitDetection :: "'a app_scheme \<Rightarrow> 'a app_scheme" where
  "handleSubmitDetection s =
     (case selectedFile s of
        None \<Rightarrow> s
      | Some f \<Rightarrow> s\<lparr> isLoading := True, error := None, detectionResult := None,
                     predictInFlight := predictInFlight s @ [f] \<rparr>)"

text \<open>The test \<open>plant_data && plant_data.length > 0 && !plant_data[0].error\<close>; when it holds
  the result is \<open>plant_data[0]\<close>.\<close>

definition first_plant :: "detect_data \<Rightarrow> plant_record option" where
  "first_plant d =
     (case plant_data d of
        None \<Rightarrow> None
      | Some [] \<Rightarrow> None
      | Some (p # ps) \<Rightarrow> if truthy (plant_error p) then None else Some p)"

text \<open>\<open>plant_data[0].name || 'your plant'\<close>.\<close>

definition plantName_of :: "plant_record \<Rightarrow> string" where
  "plantName_of p = (case js_or (name p) (Some default_plant) of
                       None \<Rightarrow> default_plant | Some n \<Rightarrow> n)"

text \<open>The rest of the \<open>try\<close> block once the request is fulfilled with body \<open>d\<close>, then the
  \<open>finally\<close> block.\<close>

definition detectionFulfilled :: "detect_data \<Rightarrow> 'a app_scheme \<Rightarrow> 'a app_scheme" where
  "detectionFulfilled d s =
     (let s1 = s\<lparr> detectionResult := Some d \<rparr>;
          s2 = (case first_plant d of
                  Some p \<Rightarrow> s1\<lparr> chatPlantName := plantName_of p,
                                 chatMessages := [greeting (plantName_of p)] \<rparr>
                | None \<Rightarrow> s1\<lparr> chatMessages := [no_plant_message] \<rparr>)
      in s2\<lparr> isLoading := False \<rparr>)"

text \<open>The \<open>catch\<close> block once the request is rejected, then the \<open>finally\<close> block.\<close>

definition detectionRejected :: "'a app_scheme \<Rightarrow> 'a app_scheme" where
  "detectionRejected s = s\<lparr> error := Some detection_error, isLoading := False \<rparr>"

section \<open>Chat\<close>

definition retry_notice :: string where
  "retry_notice = ''Sorry, I ran into an error. Please try again.''"

text \<open>The part of \<open>handleSubmitChat\<close> up to the \<open>await\<close>. The request body is built from
  \<open>chatPlantName\<close> and \<open>chatInput\<close> as the handler's closure holds them, that is, as they
  are when the handler is called.\<close>

definition handleSubmitChat :: "'a app_scheme \<Rightarrow> 'a app_scheme" where
  "handleSubmitChat s =
     (if trim (chatInput s) = [] then s
      else s\<lparr> chatMessages := chatMessages s @ [\<lparr> msg_sender = User, msg_text = Some (chatInput s) \<rparr>],
              chatInput := [],
              isChatLoading := True,
              chatInFlight := chatInFlight s @
                 [\<lparr> plant_name = chatPlantName s, message = chatInput s \<rparr>] \<rparr>)"

definition chatFulfilled :: "chat_data \<Rightarrow> 'a app_scheme \<Rightarrow> 'a app_scheme" where
  "chatFulfilled d s =
     s\<lparr> chatMessages := chatMessages s @
           [\<lparr> msg_sender = Bot, msg_text = js_or (response d) (chat_error d) \<rparr>],
        isChatLoading := False \<rparr>"

definition chatRejected :: "'a app_scheme \<Rightarrow> 'a app_scheme" where
  "chatRejected s =
     s\<lparr> chatMessages := chatMessages s @ [\<lparr> msg_sender = Bot, msg_text = Some retry_notice \<rparr>],
        isChatLoading := False \<rparr>"

section \<open>The rendered controls and the events of a session\<close>

text \<open>
  What the user and the network can do to the component. A control only fires its handler
  when it is rendered and enabled:
    \<^item> the file input is always there (\<open>onChange={handleFileChange}\<close>);
    \<^item> the clear button is rendered when \<open>previewUrl\<close> is set;
    \<^item> the detect button has \<open>disabled={!selectedFile || isLoading}\<close>;
    \<^item> the chat form is rendered on the chat tab and its submit button has
      \<open>disabled={isChatLoading}\<close>.
  An answer can only arrive for a request that is in flight; it is identified by its
  position in the list, takes the request off the list and runs the continuation.
\<close>

datatype event =
    FileChosen "image_file option"
  | ClearClicked
  | DetectClicked
  | PredictFulfilled nat detect_data
  | PredictRejected nat
  | ChatTyped string
  | ChatSubmitted
  | ChatFulfilled nat chat_data
  | ChatRejected nat
  | TabClicked tab
  | DarkToggled

fun fire :: "event \<Rightarrow> app \<Rightarrow> app" where
  "fire (FileChosen target) s = handleFileChange target s"
| "fire ClearClicked s = (if previewUrl s = None then s else clearSelection s)"
| "fire DetectClicked s =
     (if selectedFile s = None \<or> isLoading s then s else handleSubmitDetection s)"
| "fire (PredictFulfilled i d) s =
     (if i < length (predictInFlight s)
      then detectionFulfilled d (s\<lparr> predictInFlight := drop_nth i (predictInFlight s) \<rparr>)
      else s)"
| "fire (PredictRejected i) s =
     (if i < length (predictInFlight s)
      then detectionRejected (s\<lparr> predictInFlight := drop_nth i (predictInFlight s) \<rparr>)
      else s)"
| "fire (ChatTyped v) s = (if activeTab s = ChatTab then s\<lparr> chatInput := v \<rparr> else s)"
| "fire ChatSubmitted s =
     (if activeTab s = ChatTab \<and> \<not> isChatLoading s then handleSubmitChat s else s)"
| "fire (ChatFulfilled i d) s =
     (if i < length (chatInFlight s)
      then chatFulfilled d (s\<lparr> chatInFlight := drop_nth i (chatInFlight s) \<rparr>)
      else s)"
| "fire (ChatRejected i) s =
     (if i < length (chatInFlight s)
      then chatRejected (s\<lparr> chatInFlight := drop_nth i (chatInFlight s) \<rparr>)
      else s)"
| "fire (TabClicked t) s = s\<lparr> activeTab := t \<rparr>"
| "fire DarkToggled s = s\<lparr> isDark := \<not> isDark s \<rparr>"

text \<open>A session is a list of events, applied from the left.\<close>

definition run :: "event list \<Rightarrow> app \<Rightarrow> app" where
  "run es s = foldl (\<lambda>t e. fire e t) s es"

section \<open>The version with camera capture\<close>

text \<open>
  The repository holds a second version of \<open>App\<close> that adds camera capture. Its
  \<open>handleFileChange\<close>, \<open>clearResults\<close> and \<open>clearSelection\<close> have the bodies given above;
  its state has three more cells, \<open>cameraOpen\<close>, \<open>cameraError\<close> and \<open>cameraStream\<close>, and
  two refs, \<open>videoRef\<close> and \<open>canvasRef\<close>, which are set exactly while the video and canvas
  elements are rendered, that is, while \<open>cameraOpen && !cameraError\<close>.

  A media stream is identified by a number. \<open>stopCalls\<close> has one entry per stream that
  \<open>getUserMedia\<close> has handed out: how many times the handlers have stopped its tracks
  (\<open>getTracks().forEach(track => track.stop())\<close> counts once). \<open>cameraRequests\<close> counts the
  \<open>getUserMedia\<close> calls not yet answered and \<open>blobCallbacks\<close> holds the frames of the
  \<open>canvas.toBlob\<close> calls whose callback has not run yet. Detection and chat do not read or
  write any of these cells and are left out of this part.
\<close>

record camera_app = app +
  cameraOpen :: bool
  cameraError :: "string option"
  cameraStream :: "nat option"
  stopCalls :: "nat list"
  cameraRequests :: nat
  blobCallbacks :: "string list"

definition camera_initial :: camera_app where
  "camera_initial = \<lparr> activeTab = DetectTab, selectedFile = None, previewUrl = None,
     isLoading = False, error = None, detectionResult = None,
     chatPlantName = default_plant, chatInput = [], chatMessages = [],
     isChatLoading = False, isDark = False,
     objectUrls = 0, predictInFlight = [], chatInFlight = [],
     cameraOpen = False, cameraError = None, cameraStream = None,
     stopCalls = [], cameraRequests = 0, blobCallbacks = [] \<rparr>"

definition camera_error :: string where
  "camera_error = ''Unable to access camera. Please allow permissions.''"

text \<open>\<open>startCamera\<close> up to its \<open>await\<close> only calls \<open>getUserMedia\<close>.\<close>

definition startCamera :: "camera_app \<Rightarrow> camera_app" where
  "startCamera s = s\<lparr> cameraRequests := Suc (cameraRequests s) \<rparr>"

text \<open>When the call is fulfilled the browser has opened a new stream, which the handler
  stores; when it is rejected the handler records the error.\<close>

definition startCameraFulfilled :: "camera_app \<Rightarrow> camera_app" where
  "startCameraFulfilled s =
     s\<lparr> stopCalls := stopCalls s @ [0],
        cameraStream := Some (length (stopCalls s)),
        cameraOpen := True,
        cameraError := None \<rparr>"

definition startCameraRejected :: "camera_app \<Rightarrow> camera_app" where
  "startCameraRejected s = s\<lparr> cameraError := Some camera_error \<rparr>"

text \<open>\<open>capturePhoto\<close>: return when a ref is unset; draw the frame and hand it to
  \<open>canvas.toBlob\<close>; stop the tracks of the stream held in \<open>cameraStream\<close>, if any; close the
  camera and drop the stream. The argument is the JPEG encoding of the drawn frame.\<close>

definition capturePhoto :: "string \<Rightarrow> camera_app \<Rightarrow> camera_app" where
  "capturePhoto frame s =
     (if \<not> (cameraOpen s \<and> cameraError s = None) then s
      else s\<lparr> blobCallbacks := blobCallbacks s @ [frame],
              stopCalls := (case cameraStream s of
                              None \<Rightarrow> stopCalls s
                            | Some i \<Rightarrow> (stopCalls s)[i := Suc (stopCalls s ! i)]),
              cameraOpen := False,
              cameraStream := None \<rparr>)"

definition captured_file :: "string \<Rightarrow> image_file" where
  "captured_file blob = \<lparr> file_name = ''captured_image.jpg'', file_type = ''image/jpeg'',
                           file_data = blob \<rparr>"

text \<open>The callback given to \<open>canvas.toBlob\<close>.\<close>

definition blobCallback :: "string \<Rightarrow> camera_app \<Rightarrow> camera_app" where
  "blobCallback blob s =
     clearResults (s\<lparr> selectedFile := Some (captured_file blob),
                      previewUrl := Some (objectUrls s),
                      objectUrls := Suc (objectUrls s) \<rparr>)"

text \<open>The open-camera button is always rendered and enabled; the capture button is rendered
  with the video element, which is the guard \<open>capturePhoto\<close> itself tests.\<close>

datatype camera_event =
    CamFileChosen "image_file option"
  | CamClearClicked
  | OpenCameraClicked
  | CameraGranted
  | CameraDenied
  | CaptureClicked string
  | BlobReady

fun camera_fire :: "camera_event \<Rightarrow> camera_app \<Rightarrow> camera_app" where
  "camera_fire (CamFileChosen target) s = handleFileChange target s"
| "camera_fire CamClearClicked s = (if previewUrl s = None then s else clearSelection s)"
| "camera_fire OpenCameraClicked s = startCamera s"
| "camera_fire CameraGranted s =
     (if cameraRequests s = 0 then s
      else startCameraFulfilled (s\<lparr> cameraRequests := cameraRequests s - 1 \<rparr>))"
| "camera_fire CameraDenied s =
     (if cameraRequests s = 0 then s
      else startCameraRejected (s\<lparr> cameraRequests := cameraRequests s - 1 \<rparr>))"
| "camera_fire (CaptureClicked frame) s = capturePhoto frame s"
| "camera_fire BlobReady s =
     (case blobCallbacks s of
        [] \<Rightarrow> s
      | blob # rest \<Rightarrow> blobCallback blob (s\<lparr> blobCallbacks := rest \<rparr>))"

definition camera_run :: "camera_event list \<Rightarrow> camera_app \<Rightarrow> camera_app" where
  "camera_run es s = foldl (\<lambda>t e. camera_fire e t) s es"

section \<open>Sample data\<close>

definition leaf :: image_file where
  "leaf = \<lparr> file_name = ''leaf.jpg'', file_type = ''image/jpeg'', file_data = ''A'' \<rparr>"

definition twig :: image_file where
  "twig = \<lparr> file_name = ''twig.png'', file_type = ''image/png'', file_data = ''B'' \<rparr>"

definition neem :: plant_record where
  "neem = \<lparr> name = Some ''Neem'', scientific_name = Some ''Azadirachta indica'',
     common_name = Some ''Neem'', local_name = Some ''Nimba'', family_name = Some ''Meliaceae'',
     medicinal_uses = Some ''Antiseptic'', plant_error = None \<rparr>"

definition unknown_plant :: plant_record where
  "unknown_plant = \<lparr> name = Some ''Unknown'', scientific_name = None, common_name = None,
     local_name = None, family_name = None, medicinal_uses = None,
     plant_error = Some ''no match'' \<rparr>"

definition neem_reply :: detect_data where
  "neem_reply = \<lparr> annotated_image = ''img1'', plant_data = Some [neem] \<rparr>"

definition unknown_reply :: detect_data where
  "unknown_reply = \<lparr> annotated_image = ''img2'', plant_data = Some [unknown_plant] \<rparr>"

definition mixed_reply :: detect_data where
  "mixed_reply = \<lparr> annotated_image = ''img3'', plant_data = Some [unknown_plant, neem] \<rparr>"

definition quota_reply :: chat_data where
  "quota_reply = \<lparr> response = None, chat_error = Some ''quota exceeded'' \<rparr>"

section \<open>Invariants of a session\<close>

text \<open>The loading flag is set exactly while a detection request is in flight, and there is
  at most one.\<close>

definition detect_inv :: "app \<Rightarrow> bool" where
  "detect_inv s \<longleftrightarrow>
     (isLoading s \<longleftrightarrow> predictInFlight s \<noteq> []) \<and> length (predictInFlight s) \<le> 1"

text \<open>When the stored result identifies a plant, the chat is about that plant.\<close>

definition bound_name_ok :: "app \<Rightarrow> bool" where
  "bound_name_ok s =
     (case detectionResult s of
        None \<Rightarrow> True
      | Some d \<Rightarrow> (case first_plant d of
                     None \<Rightarrow> True
                   | Some p \<Rightarrow> chatPlantName s = plantName_of p))"

text \<open>No stream has been stopped twice, and the stream the component holds exists and has
  not been stopped.\<close>

definition stream_inv :: "camera_app \<Rightarrow> bool" where
  "stream_inv s \<longleftrightarrow>
     list_all (\<lambda>n. n \<le> 1) (stopCalls s)
     \<and> (case cameraStream s of
          None \<Rightarrow> True
        | Some i \<Rightarrow> i < length (stopCalls s) \<and> stopCalls s ! i = 0)"

section \<open>Properties\<close>

subsection \<open>Auxiliary facts\<close>

lemmas handler_defs =
  handleFileChange_def clearResults_def clearSelection_def handleSubmitDetection_def
  detectionFulfilled_def detectionRejected_def handleSubmitChat_def chatFulfilled_def
  chatRejected_def

lemmas sample_defs =
  leaf_def twig_def neem_def unknown_plant_def neem_reply_def unknown_reply_def
  mixed_reply_def quota_reply_def

lemmas value_defs =
  first_plant_def plantName_of_def js_or_def truthy_def drop_nth_def default_plant_def
  greeting_def no_plant_message_def

lemmas camera_defs =
  startCamera_def startCameraFulfilled_def startCameraRejected_def capturePhoto_def
  blobCallback_def camera_error_def captured_file_def

lemma run_Nil: "run [] s = s"
  by (simp add: run_def)

lemma run_Cons: "run (e # es) s = run es (fire e s)"
  by (simp add: run_def)

lemma run_snoc: "run (es @ [e]) s = fire e (run es s)"
  by (simp add: run_def)

lemma dropWhile_all_iff: "(\<forall>x\<in>set (dropWhile P xs). P x) \<longleftrightarrow> (\<forall>x\<in>set xs. P x)"
  by (induction xs) auto

lemma trim_empty_iff: "trim t = [] \<longleftrightarrow> (\<forall>c\<in>set t. is_space c)"
  by (simp add: trim_def dropWhile_all_iff)

lemma drop_nth_last: "drop_nth (length xs) (xs @ [x]) = xs"
  by (simp add: drop_nth_def)

lemma drop_nth_single: "length xs \<le> 1 \<Longrightarrow> i < length xs \<Longrightarrow> drop_nth i xs = []"
  by (cases xs) (auto simp add: drop_nth_def)

lemma handleFileChange_some:
  "handleFileChange (Some f) s = s\<lparr> selectedFile := Some f, previewUrl := Some (objectUrls s),
      objectUrls := Suc (objectUrls s), detectionResult := None, error := None,
      chatMessages := [], chatPlantName := default_plant \<rparr>"
  by (simp add: handleFileChange_def clearResults_def)

lemma detect_inv_initial: "detect_inv initial"
  by (simp add: detect_inv_def initial_def)

lemma detect_inv_fire: "detect_inv s \<Longrightarrow> detect_inv (fire e s)"
  by (cases e)
     (auto simp add: detect_inv_def handler_defs Let_def drop_nth_single split: option.splits)

lemma detect_inv_run: "detect_inv s \<Longrightarrow> detect_inv (run es s)"
  by (induction es arbitrary: s) (simp_all add: run_Nil run_Cons detect_inv_fire)

lemma bound_name_ok_fire: "bound_name_ok s \<Longrightarrow> bound_name_ok (fire e s)"
  by (cases e)
     (auto simp add: bound_name_ok_def handler_defs Let_def split: option.splits)

lemma bound_name_ok_run: "bound_name_ok s \<Longrightarrow> bound_name_ok (run es s)"
  by (induction es arbitrary: s) (simp_all add: run_Nil run_Cons bound_name_ok_fire)

lemma camera_initial_simps:
  "cameraOpen camera_initial = False" "cameraError camera_initial = None"
  "cameraStream camera_initial = None" "stopCalls camera_initial = []"
  "cameraRequests camera_initial = 0" "blobCallbacks camera_initial = []"
  "previewUrl camera_initial = None" "objectUrls camera_initial = 0"
  "selectedFile camera_initial = None"
  by (simp_all add: camera_initial_def)

lemma list_all_update: "list_all P xs \<Longrightarrow> P v \<Longrightarrow> list_all P (xs[i := v])"
  by (induction xs arbitrary: i) (auto split: nat.splits)

lemma stream_inv_initial: "stream_inv camera_initial"
  by (simp add: stream_inv_def camera_initial_simps)

lemma stream_inv_fire: "stream_inv s \<Longrightarrow> stream_inv (camera_fire e s)"
  by (cases e)
     (auto simp add: stream_inv_def camera_defs handler_defs nth_append list_all_update
           split: option.splits list.splits)

lemma stream_inv_run: "stream_inv s \<Longrightarrow> stream_inv (camera_run es s)"
  by (induction es arbitrary: s) (simp_all add: camera_run_def stream_inv_fire)

subsection \<open>Responses and the state they find\<close>

text \<open>
  C1, as stated, asks that a detection answer arriving after the selection was cleared be
  dropped, so that the final state is the state right after the clear. The component keeps
  no generation counter. In the session below the answer for \<open>leaf\<close> arrives after the
  clear: the state after the clear has no result, an empty transcript and the placeholder
  name, and the final state holds the answer, the greeting and the name Neem.
\<close>

theorem stale_detection_counterexample:
  "run [FileChosen (Some leaf), DetectClicked, ClearClicked, PredictFulfilled 0 neem_reply] initial
     \<noteq> run [FileChosen (Some leaf), DetectClicked, ClearClicked] initial
   \<and> detectionResult (run [FileChosen (Some leaf), DetectClicked, ClearClicked] initial) = None
   \<and> chatMessages (run [FileChosen (Some leaf), DetectClicked, ClearClicked] initial) = []
   \<and> chatPlantName (run [FileChosen (Some leaf), DetectClicked, ClearClicked] initial)
        = ''your plant''
   \<and> detectionResult (run [FileChosen (Some leaf), DetectClicked, ClearClicked,
        PredictFulfilled 0 neem_reply] initial) = Some neem_reply
   \<and> chatMessages (run [FileChosen (Some leaf), DetectClicked, ClearClicked,
        PredictFulfilled 0 neem_reply] initial) = [greeting ''Neem'']
   \<and> chatPlantName (run [FileChosen (Some leaf), DetectClicked, ClearClicked,
        PredictFulfilled 0 neem_reply] initial) = ''Neem''"
  by (simp add: run_def initial_def handler_defs sample_defs value_defs)

text \<open>
  C1, amended. An answer is applied to whatever state it finds. From a state with a file
  selected and no detection running, the session detect, clear, answer \<open>d\<close> ends in the
  state that \<open>d\<close> makes of the cleared state: the result is \<open>d\<close>, the transcript is the one
  seeded from \<open>d\<close>, the name is taken from \<open>d\<close> (the placeholder when \<open>d\<close> identifies no
  plant), the loading flag is off and no file is selected. In any state \<open>t\<close>, the answer to
  a detection request in flight is stored, and the answer to a chat request in flight is
  appended to the transcript of \<open>t\<close>.
\<close>

theorem detection_reply_applied_after_clear:
  assumes "selectedFile s = Some f" and "previewUrl s \<noteq> None" and "\<not> isLoading s"
  shows "run [DetectClicked, ClearClicked, PredictFulfilled (length (predictInFlight s)) d] s
           = detectionFulfilled d (clearSelection s)
       \<and> detectionResult
            (run [DetectClicked, ClearClicked, PredictFulfilled (length (predictInFlight s)) d] s)
           = Some d
       \<and> chatMessages
            (run [DetectClicked, ClearClicked, PredictFulfilled (length (predictInFlight s)) d] s)
           = (case first_plant d of Some p \<Rightarrow> [greeting (plantName_of p)]
                                   | None \<Rightarrow> [no_plant_message])
       \<and> chatPlantName
            (run [DetectClicked, ClearClicked, PredictFulfilled (length (predictInFlight s)) d] s)
           = (case first_plant d of Some p \<Rightarrow> plantName_of p | None \<Rightarrow> default_plant)
       \<and> \<not> isLoading
            (run [DetectClicked, ClearClicked, PredictFulfilled (length (predictInFlight s)) d] s)
       \<and> selectedFile
            (run [DetectClicked, ClearClicked, PredictFulfilled (length (predictInFlight s)) d] s)
           = None
       \<and> (i < length (predictInFlight t) \<longrightarrow>
            detectionResult (fire (PredictFulfilled i d) t) = Some d)
       \<and> (j < length (chatInFlight t) \<longrightarrow>
            chatMessages (fire (ChatFulfilled j r) t)
              = chatMessages t @ [\<lparr> msg_sender = Bot, msg_text = js_or (response r) (chat_error r) \<rparr>])"
  using assms
  by (cases "first_plant d")
     (auto simp add: run_def handler_defs drop_nth_last Let_def split: option.splits)

theorem detection_reply_applied_after_clear_witness:
  "selectedFile (run [FileChosen (Some leaf)] initial) = Some leaf
   \<and> previewUrl (run [FileChosen (Some leaf)] initial) \<noteq> None
   \<and> \<not> isLoading (run [FileChosen (Some leaf)] initial)
   \<and> detectionResult (run [DetectClicked, ClearClicked, PredictFulfilled 0 neem_reply]
        (run [FileChosen (Some leaf)] initial)) = Some neem_reply"
proof -
  let ?s = "run [FileChosen (Some leaf)] initial"
  have a: "selectedFile ?s = Some leaf"
    and b: "previewUrl ?s \<noteq> None"
    and c: "\<not> isLoading ?s"
    and n: "predictInFlight ?s = []"
    by (simp_all add: run_def initial_def handler_defs)
  have "detectionResult
          (run [DetectClicked, ClearClicked,
                PredictFulfilled (length (predictInFlight ?s)) neem_reply] ?s) = Some neem_reply"
    using detection_reply_applied_after_clear [OF a b c] by blast
  then have "detectionResult
          (run [DetectClicked, ClearClicked, PredictFulfilled 0 neem_reply] ?s) = Some neem_reply"
    by (simp only: n list.size)
  with a b c show ?thesis by blast
qed

subsection \<open>One detection at a time\<close>

text \<open>The handler itself tests only that a file is selected: called with a file selected,
  it sends a request whatever \<open>isLoading\<close> is. What keeps a second request from being sent
  is the detect button, which is disabled while \<open>isLoading\<close>.\<close>

lemma handleSubmitDetection_sends:
  "selectedFile s = Some f \<Longrightarrow>
     predictInFlight (handleSubmitDetection s) = predictInFlight s @ [f]"
  by (simp add: handleSubmitDetection_def)

text \<open>
  C2. In every state a session can reach, at most one detection request is in flight, and
  while one is in flight a further click on the detect button (the only caller of
  \<open>handleSubmitDetection\<close>, disabled while \<open>isLoading\<close>) changes nothing: no second request
  is issued.
\<close>

theorem one_detection_in_flight:
  "length (predictInFlight (run es initial)) \<le> 1
   \<and> (predictInFlight (run es initial) \<noteq> [] \<longrightarrow>
        fire DetectClicked (run es initial) = run es initial
      \<and> predictInFlight (fire DetectClicked (run es initial)) = predictInFlight (run es initial))"
  using detect_inv_run [OF detect_inv_initial, of es]
  by (simp add: detect_inv_def)

theorem one_detection_in_flight_witness:
  "predictInFlight (run [FileChosen (Some leaf), DetectClicked] initial) \<noteq> []
   \<and> fire DetectClicked (run [FileChosen (Some leaf), DetectClicked] initial)
       = run [FileChosen (Some leaf), DetectClicked] initial"
proof -
  have "predictInFlight (run [FileChosen (Some leaf), DetectClicked] initial) \<noteq> []"
    by (simp add: run_def initial_def handler_defs)
  then show ?thesis
    using one_detection_in_flight [of "[FileChosen (Some leaf), DetectClicked]"] by blast
qed

subsection \<open>What a successful detection does to the chat\<close>

text \<open>
  C3, as stated, binds the chat whenever some record of \<open>plant_data\<close> has no error flag.
  The handler looks at the first record only. Here the second record, Neem, has no error
  flag, the first has one, and the chat gets the could-not-detect message and keeps the
  placeholder name.
\<close>

theorem first_record_counterexample:
  "plant_data mixed_reply = Some [unknown_plant, neem]
   \<and> plant_error neem = None
   \<and> detectionResult (run [FileChosen (Some leaf), DetectClicked,
        PredictFulfilled 0 mixed_reply] initial) = Some mixed_reply
   \<and> chatPlantName (run [FileChosen (Some leaf), DetectClicked,
        PredictFulfilled 0 mixed_reply] initial) = ''your plant''
   \<and> chatMessages (run [FileChosen (Some leaf), DetectClicked,
        PredictFulfilled 0 mixed_reply] initial) = [no_plant_message]"
  by (simp add: run_def initial_def handler_defs sample_defs value_defs)

text \<open>
  C3, amended. A successful detection stores the result and clears the loading flag. If the
  first record of \<open>plant_data\<close> exists and has no error flag, the chat is bound to that
  record's name (the placeholder when the name is missing or empty) and the transcript
  becomes exactly one bot greeting that mentions the bound name. If \<open>plant_data\<close> is missing
  or empty, or its first record has an error flag, the transcript becomes exactly the
  could-not-detect message, and a bound name that was the placeholder is still the
  placeholder.
\<close>

theorem detection_success_seeds_chat:
  "detectionResult (detectionFulfilled d s) = Some d
   \<and> \<not> isLoading (detectionFulfilled d s)
   \<and> (\<forall>p ps. plant_data d = Some (p # ps) \<and> \<not> truthy (plant_error p) \<longrightarrow>
         chatPlantName (detectionFulfilled d s) = plantName_of p
       \<and> chatMessages (detectionFulfilled d s) = [\<lparr> msg_sender = Bot, msg_text =
            Some (''I've identified '' @ plantName_of p
                  @ ''. Feel free to ask me any questions about it!'') \<rparr>]
       \<and> (\<forall>n. name p = Some n \<and> n \<noteq> [] \<longrightarrow> plantName_of p = n)
       \<and> (name p = None \<or> name p = Some [] \<longrightarrow> plantName_of p = ''your plant''))
   \<and> ((plant_data d = None \<or> plant_data d = Some []
        \<or> (\<exists>p ps. plant_data d = Some (p # ps) \<and> truthy (plant_error p))) \<longrightarrow>
         chatMessages (detectionFulfilled d s) = [\<lparr> msg_sender = Bot, msg_text =
            Some ''I couldn't detect a specific plant, but you can still ask general questions.'' \<rparr>]
       \<and> (chatPlantName s = ''your plant'' \<longrightarrow>
            chatPlantName (detectionFulfilled d s) = ''your plant''))"
  by (auto simp add: detectionFulfilled_def Let_def value_defs split: option.splits list.splits)

theorem detection_success_seeds_chat_witness:
  "chatPlantName (detectionFulfilled neem_reply initial) = ''Neem''
   \<and> chatMessages (detectionFulfilled neem_reply initial) = [\<lparr> msg_sender = Bot, msg_text =
        Some ''I've identified Neem. Feel free to ask me any questions about it!'' \<rparr>]
   \<and> chatMessages (detectionFulfilled unknown_reply initial) = [\<lparr> msg_sender = Bot, msg_text =
        Some ''I couldn't detect a specific plant, but you can still ask general questions.'' \<rparr>]
   \<and> chatPlantName (detectionFulfilled unknown_reply initial) = ''your plant''"
proof -
  have a: "plant_data neem_reply = Some (neem # []) \<and> \<not> truthy (plant_error neem)"
    by (simp add: sample_defs truthy_def)
  have n: "name neem = Some ''Neem'' \<and> ''Neem'' \<noteq> []"
    by (simp add: sample_defs)
  have b: "plant_data unknown_reply = Some (unknown_plant # [])
           \<and> truthy (plant_error unknown_plant)"
    by (simp add: sample_defs truthy_def)
  have c: "chatPlantName initial = ''your plant''"
    by (simp add: initial_def default_plant_def)
  from a n detection_success_seeds_chat [of neem_reply initial]
  have 1: "chatPlantName (detectionFulfilled neem_reply initial) = ''Neem''
     \<and> chatMessages (detectionFulfilled neem_reply initial) = [\<lparr> msg_sender = Bot, msg_text =
        Some (''I've identified '' @ ''Neem'' @ ''. Feel free to ask me any questions about it!'') \<rparr>]"
    by metis
  from b c detection_success_seeds_chat [of unknown_reply initial]
  have 2: "chatMessages (detectionFulfilled unknown_reply initial) = [\<lparr> msg_sender = Bot,
        msg_text = Some ''I couldn't detect a specific plant, but you can still ask general questions.'' \<rparr>]
     \<and> chatPlantName (detectionFulfilled unknown_reply initial) = ''your plant''"
    by blast
  from 1 2 show ?thesis by simp
qed

subsection \<open>Choosing a new image\<close>

text \<open>
  C4, as stated, has a new image clear the loading indicators tied to the old one.
  \<open>handleFileChange\<close> does not write \<open>isLoading\<close>: with a detection for \<open>leaf\<close> in flight,
  choosing \<open>twig\<close> replaces the file and leaves the flag set.
\<close>

theorem loading_flag_counterexample:
  "isLoading (run [FileChosen (Some leaf), DetectClicked] initial)
   \<and> predictInFlight (run [FileChosen (Some leaf), DetectClicked] initial) = [leaf]
   \<and> selectedFile (fire (FileChosen (Some twig))
        (run [FileChosen (Some leaf), DetectClicked] initial)) = Some twig
   \<and> isLoading (fire (FileChosen (Some twig))
        (run [FileChosen (Some leaf), DetectClicked] initial))"
  by (simp add: run_def initial_def handler_defs sample_defs)

text \<open>
  C4, amended. After any non-empty sequence of file choices, the selected file is the last
  one chosen and the preview is the URL created for it; the detection result, the error,
  the transcript and the bound name are reset to their defaults; no request was sent (both
  in-flight lists are as before); and the two loading flags are as before.
\<close>

theorem setImageSource_sequence:
  assumes "fs \<noteq> []"
  shows "selectedFile (run (map (\<lambda>f. FileChosen (Some f)) fs) s) = Some (last fs)
       \<and> previewUrl (run (map (\<lambda>f. FileChosen (Some f)) fs) s)
           = Some (objectUrls s + length fs - 1)
       \<and> objectUrls (run (map (\<lambda>f. FileChosen (Some f)) fs) s) = objectUrls s + length fs
       \<and> detectionResult (run (map (\<lambda>f. FileChosen (Some f)) fs) s) = None
       \<and> error (run (map (\<lambda>f. FileChosen (Some f)) fs) s) = None
       \<and> chatMessages (run (map (\<lambda>f. FileChosen (Some f)) fs) s) = []
       \<and> chatPlantName (run (map (\<lambda>f. FileChosen (Some f)) fs) s) = ''your plant''
       \<and> predictInFlight (run (map (\<lambda>f. FileChosen (Some f)) fs) s) = predictInFlight s
       \<and> chatInFlight (run (map (\<lambda>f. FileChosen (Some f)) fs) s) = chatInFlight s
       \<and> isLoading (run (map (\<lambda>f. FileChosen (Some f)) fs) s) = isLoading s
       \<and> isChatLoading (run (map (\<lambda>f. FileChosen (Some f)) fs) s) = isChatLoading s"
  using assms
proof (induction fs rule: rev_induct)
  case Nil
  then show ?case by simp
next
  case (snoc f fs)
  show ?case
  proof (cases "fs = []")
    case True
    then show ?thesis
      by (simp add: run_def handleFileChange_some default_plant_def)
  next
    case False
    with snoc.IH show ?thesis
      by (simp add: run_snoc handleFileChange_some default_plant_def)
  qed
qed

theorem setImageSource_sequence_witness:
  "[leaf, twig] \<noteq> []
   \<and> selectedFile (run (map (\<lambda>f. FileChosen (Some f)) [leaf, twig])
        (run [FileChosen (Some leaf), DetectClicked, PredictFulfilled 0 neem_reply] initial))
       = Some twig
   \<and> detectionResult (run (map (\<lambda>f. FileChosen (Some f)) [leaf, twig])
        (run [FileChosen (Some leaf), DetectClicked, PredictFulfilled 0 neem_reply] initial))
       = None"
proof -
  have ne: "[leaf, twig] \<noteq> []" by simp
  from setImageSource_sequence [OF ne,
    of "run [FileChosen (Some leaf), DetectClicked, PredictFulfilled 0 neem_reply] initial"]
  show ?thesis by simp
qed

subsection \<open>The plant the chat is about\<close>

text \<open>
  C5, as stated, makes the bound name always come from the most recent successful
  detection. A detection that identifies no plant does not write the name: after Neem is
  detected and a second detection of the same file returns only an unidentified record,
  the stored result is the second one and the chat is still bound to Neem.
\<close>

theorem superseded_name_counterexample:
  "detectionResult (run [FileChosen (Some leaf), DetectClicked, PredictFulfilled 0 neem_reply,
        DetectClicked, PredictFulfilled 0 unknown_reply] initial) = Some unknown_reply
   \<and> plant_data unknown_reply = Some [unknown_plant]
   \<and> name unknown_plant = Some ''Unknown''
   \<and> chatPlantName (run [FileChosen (Some leaf), DetectClicked, PredictFulfilled 0 neem_reply,
        DetectClicked, PredictFulfilled 0 unknown_reply] initial) = ''Neem''"
  by (simp add: run_def initial_def handler_defs sample_defs value_defs)

text \<open>
  C5, amended. In every state a session can reach, if a detection result is stored and its
  first record exists and has no error flag, then the bound plant name is the one derived
  from that record (its name, or the placeholder when the name is missing or empty).
\<close>

theorem bound_name_from_stored_result:
  "detectionResult (run es initial) = Some d \<and> first_plant d = Some p
   \<longrightarrow> chatPlantName (run es initial) = plantName_of p"
proof -
  have "bound_name_ok initial"
    by (simp add: bound_name_ok_def initial_def)
  then have "bound_name_ok (run es initial)"
    by (rule bound_name_ok_run)
  then show ?thesis
    by (auto simp add: bound_name_ok_def)
qed

theorem bound_name_from_stored_result_witness:
  "detectionResult (run [FileChosen (Some leaf), DetectClicked,
       PredictFulfilled 0 neem_reply] initial) = Some neem_reply
   \<and> first_plant neem_reply = Some neem
   \<and> chatPlantName (run [FileChosen (Some leaf), DetectClicked,
       PredictFulfilled 0 neem_reply] initial) = ''Neem''"
proof -
  have a: "detectionResult (run [FileChosen (Some leaf), DetectClicked,
       PredictFulfilled 0 neem_reply] initial) = Some neem_reply"
    by (simp add: run_def initial_def handler_defs sample_defs value_defs Let_def)
  have b: "first_plant neem_reply = Some neem"
    by (simp add: sample_defs value_defs)
  have c: "plantName_of neem = ''Neem''"
    by (simp add: sample_defs value_defs)
  from a b c bound_name_from_stored_result
    [of "[FileChosen (Some leaf), DetectClicked, PredictFulfilled 0 neem_reply]" neem_reply neem]
  show ?thesis by simp
qed

subsection \<open>Sending a chat message\<close>

text \<open>
  C6. When the input is not empty after trimming and no chat answer is pending,
  \<open>handleSubmitChat\<close> (which is what submitting the chat form runs) appends a user message
  with the input text at once, sets the pending flag, and sends a request carrying the
  bound plant name and the input text. When the request is fulfilled a bot message with
  the returned text (\<open>response\<close>, when it is a non-empty string) is appended; when it is
  rejected a bot message with the retry notice is appended; either way the pending flag is
  cleared, whatever state the answer finds.
\<close>

theorem sendChatMessage_effect:
  assumes "trim (chatInput s) \<noteq> []" and "\<not> isChatLoading s"
  shows "chatMessages (handleSubmitChat s)
           = chatMessages s @ [\<lparr> msg_sender = User, msg_text = Some (chatInput s) \<rparr>]
       \<and> isChatLoading (handleSubmitChat s)
       \<and> chatInFlight (handleSubmitChat s)
           = chatInFlight s @ [\<lparr> plant_name = chatPlantName s, message = chatInput s \<rparr>]
       \<and> (activeTab s = ChatTab \<longrightarrow> fire ChatSubmitted s = handleSubmitChat s)
       \<and> chatMessages (chatFulfilled d (handleSubmitChat s))
           = chatMessages s @ [\<lparr> msg_sender = User, msg_text = Some (chatInput s) \<rparr>,
                               \<lparr> msg_sender = Bot, msg_text = js_or (response d) (chat_error d) \<rparr>]
       \<and> (\<forall>r. response d = Some r \<and> r \<noteq> [] \<longrightarrow> js_or (response d) (chat_error d) = Some r)
       \<and> chatMessages (chatRejected (handleSubmitChat s))
           = chatMessages s @ [\<lparr> msg_sender = User, msg_text = Some (chatInput s) \<rparr>,
                               \<lparr> msg_sender = Bot, msg_text = Some retry_notice \<rparr>]
       \<and> \<not> isChatLoading (chatFulfilled d t)
       \<and> \<not> isChatLoading (chatRejected t)"
  using assms
  by (simp add: handleSubmitChat_def chatFulfilled_def chatRejected_def js_or_def truthy_def)

theorem sendChatMessage_effect_witness:
  "trim (chatInput (run [TabClicked ChatTab, ChatTyped ''Is it edible?''] initial)) \<noteq> []
   \<and> \<not> isChatLoading (run [TabClicked ChatTab, ChatTyped ''Is it edible?''] initial)
   \<and> chatMessages (handleSubmitChat (run [TabClicked ChatTab, ChatTyped ''Is it edible?''] initial))
       = [\<lparr> msg_sender = User, msg_text = Some ''Is it edible?'' \<rparr>]
   \<and> chatInFlight (handleSubmitChat (run [TabClicked ChatTab, ChatTyped ''Is it edible?''] initial))
       = [\<lparr> plant_name = ''your plant'', message = ''Is it edible?'' \<rparr>]"
proof -
  have a: "trim (chatInput (run [TabClicked ChatTab, ChatTyped ''Is it edible?''] initial)) \<noteq> []"
    by (simp add: run_def initial_def trim_def is_space_def)
  have b: "\<not> isChatLoading (run [TabClicked ChatTab, ChatTyped ''Is it edible?''] initial)"
    by (simp add: run_def initial_def)
  have c: "chatInput (run [TabClicked ChatTab, ChatTyped ''Is it edible?''] initial)
             = ''Is it edible?''"
    "chatMessages (run [TabClicked ChatTab, ChatTyped ''Is it edible?''] initial) = []"
    "chatInFlight (run [TabClicked ChatTab, ChatTyped ''Is it edible?''] initial) = []"
    "chatPlantName (run [TabClicked ChatTab, ChatTyped ''Is it edible?''] initial) = ''your plant''"
    by (simp_all add: run_def initial_def default_plant_def)
  from sendChatMessage_effect [OF a b, where d = quota_reply and t = initial] a b c
  show ?thesis by simp
qed

text \<open>
  C7. When the chat input is empty or consists of white space only, \<open>handleSubmitChat\<close>
  returns the state it was given: the transcript is unchanged and no request is sent.
  Submitting the form does the same.
\<close>

theorem handleSubmitChat_blank:
  assumes "\<forall>c\<in>set (chatInput s). is_space c"
  shows "handleSubmitChat s = s
       \<and> chatMessages (handleSubmitChat s) = chatMessages s
       \<and> chatInFlight (handleSubmitChat s) = chatInFlight s
       \<and> fire ChatSubmitted s = s"
  using assms by (simp add: handleSubmitChat_def trim_empty_iff)

theorem handleSubmitChat_blank_witness:
  "trim (chatInput (initial\<lparr> chatInput := ''   '' \<rparr>)) = []
   \<and> handleSubmitChat (initial\<lparr> chatInput := ''   '' \<rparr>) = initial\<lparr> chatInput := ''   '' \<rparr>
   \<and> trim (chatInput (initial\<lparr> chatInput := [] \<rparr>)) = []
   \<and> handleSubmitChat (initial\<lparr> chatInput := [] \<rparr>) = initial\<lparr> chatInput := [] \<rparr>"
proof -
  have a: "\<forall>c\<in>set (chatInput (initial\<lparr> chatInput := ''   '' \<rparr>)). is_space c"
    by (simp add: is_space_def)
  have b: "\<forall>c\<in>set (chatInput (initial\<lparr> chatInput := [] \<rparr>)). is_space c"
    by simp
  have c: "trim (chatInput (initial\<lparr> chatInput := ''   '' \<rparr>)) = []"
    "trim (chatInput (initial\<lparr> chatInput := [] \<rparr>)) = []"
    by (simp_all add: trim_def is_space_def)
  show ?thesis
    using c handleSubmitChat_blank [OF a] handleSubmitChat_blank [OF b] by blast
qed

subsection \<open>The camera stream\<close>

text \<open>
  C8, as stated, has every acquired stream stopped exactly once on every way out. The
  open-camera button can be pressed while a stream is held: the new stream replaces the
  old one in \<open>cameraStream\<close>, and after the capture and a clear the camera is closed, no
  stream is held, and the first stream has never been stopped. Clearing the selection
  while the camera is open does not stop the held stream either.
\<close>

theorem stream_leak_counterexample:
  "stopCalls (camera_run [OpenCameraClicked, CameraGranted, OpenCameraClicked, CameraGranted,
      CaptureClicked ''jpg'', BlobReady, CamClearClicked] camera_initial) = [0, 1]
   \<and> cameraStream (camera_run [OpenCameraClicked, CameraGranted, OpenCameraClicked,
      CameraGranted, CaptureClicked ''jpg'', BlobReady, CamClearClicked] camera_initial) = None
   \<and> \<not> cameraOpen (camera_run [OpenCameraClicked, CameraGranted, OpenCameraClicked,
      CameraGranted, CaptureClicked ''jpg'', BlobReady, CamClearClicked] camera_initial)
   \<and> stopCalls (camera_run [OpenCameraClicked, CameraGranted, CamFileChosen (Some leaf),
      CamClearClicked] camera_initial) = [0]
   \<and> cameraStream (camera_run [OpenCameraClicked, CameraGranted, CamFileChosen (Some leaf),
      CamClearClicked] camera_initial) = Some 0"
  by (simp add: camera_run_def camera_initial_simps camera_defs handler_defs)

text \<open>
  C8, amended. In a state a session can reach in which the camera view is shown (camera
  open, no camera error) and a stream is held, that stream has not been stopped yet, and
  \<open>capturePhoto\<close> stops it exactly once, drops it and closes the camera. Clearing the
  selection right afterwards stops nothing, a second \<open>capturePhoto\<close> then does nothing, and
  whatever follows, no stream's stop count exceeds one.
\<close>

theorem capture_stops_stream_once:
  assumes "s = camera_run es camera_initial"
      and "cameraOpen s" and "cameraError s = None" and "cameraStream s = Some i"
  shows "stopCalls s ! i = 0
       \<and> stopCalls (capturePhoto frame s) = (stopCalls s)[i := 1]
       \<and> stopCalls (capturePhoto frame s) ! i = 1
       \<and> cameraStream (capturePhoto frame s) = None
       \<and> \<not> cameraOpen (capturePhoto frame s)
       \<and> stopCalls (clearSelection (capturePhoto frame s)) = stopCalls (capturePhoto frame s)
       \<and> capturePhoto frame' (clearSelection (capturePhoto frame s))
            = clearSelection (capturePhoto frame s)
       \<and> list_all (\<lambda>n. n \<le> 1) (stopCalls (camera_run es' (capturePhoto frame s)))"
proof -
  have inv: "stream_inv s"
    using assms(1) stream_inv_run [OF stream_inv_initial] by simp
  then have i: "i < length (stopCalls s)" "stopCalls s ! i = 0"
    using assms(4) by (simp_all add: stream_inv_def)
  have "stream_inv (camera_run es' (capturePhoto frame s))"
    using stream_inv_fire [OF inv, of "CaptureClicked frame"] by (simp add: stream_inv_run)
  then have "list_all (\<lambda>n. n \<le> 1) (stopCalls (camera_run es' (capturePhoto frame s)))"
    by (simp add: stream_inv_def)
  then show ?thesis
    using assms(2-4) i
    by (simp add: capturePhoto_def clearSelection_def clearResults_def)
qed

theorem capture_stops_stream_once_witness:
  "cameraOpen (camera_run [OpenCameraClicked, CameraGranted] camera_initial)
   \<and> cameraError (camera_run [OpenCameraClicked, CameraGranted] camera_initial) = None
   \<and> cameraStream (camera_run [OpenCameraClicked, CameraGranted] camera_initial) = Some 0
   \<and> stopCalls (capturePhoto ''jpg''
        (camera_run [OpenCameraClicked, CameraGranted] camera_initial)) ! 0 = 1
   \<and> stopCalls (clearSelection (capturePhoto ''jpg''
        (camera_run [OpenCameraClicked, CameraGranted] camera_initial))) = [1]"
proof -
  let ?s = "camera_run [OpenCameraClicked, CameraGranted] camera_initial"
  have a: "cameraOpen ?s" and b: "cameraError ?s = None" and c: "cameraStream ?s = Some 0"
    and d: "stopCalls ?s = [0]"
    by (simp_all add: camera_run_def camera_initial_simps camera_defs)
  from capture_stops_stream_once [OF refl a b c, of "''jpg''"] a b c d
  show ?thesis by simp
qed

subsection \<open>A file dialog that was cancelled\<close>

text \<open>
  C9. When the file-change event carries no file, \<open>handleFileChange\<close> returns the state it
  was given: the selected file, the preview URL, the detection result, the error, the
  transcript, the bound plant name and every other field are as before.
\<close>

theorem handleFileChange_no_file: "handleFileChange None s = s"
  by (simp add: handleFileChange_def)

subsection \<open>A chat answer that carries an error\<close>

text \<open>
  C10. When the chat request is fulfilled with a body whose \<open>response\<close> is missing or empty
  and whose \<open>error\<close> is the string \<open>e\<close>, the bot message appended to the transcript has the
  text \<open>e\<close> (so it is the retry notice only if \<open>e\<close> is), and the pending flag is cleared.
\<close>

theorem chat_error_shape:
  assumes "response d = None \<or> response d = Some []"
      and "chat_error d = Some e"
  shows "chatMessages (chatFulfilled d s)
           = chatMessages s @ [\<lparr> msg_sender = Bot, msg_text = Some e \<rparr>]
       \<and> (msg_text (last (chatMessages (chatFulfilled d s))) = Some retry_notice
            \<longleftrightarrow> e = retry_notice)
       \<and> \<not> isChatLoading (chatFulfilled d s)
       \<and> (i < length (chatInFlight s) \<longrightarrow>
            chatMessages (fire (ChatFulfilled i d) s)
              = chatMessages s @ [\<lparr> msg_sender = Bot, msg_text = Some e \<rparr>]
          \<and> \<not> isChatLoading (fire (ChatFulfilled i d) s))"
  using assms by (auto simp add: chatFulfilled_def js_or_def truthy_def)

theorem chat_error_shape_witness:
  "(response quota_reply = None \<or> response quota_reply = Some [])
   \<and> chat_error quota_reply = Some ''quota exceeded''
   \<and> chatMessages (chatFulfilled quota_reply initial)
       = [\<lparr> msg_sender = Bot, msg_text = Some ''quota exceeded'' \<rparr>]
   \<and> \<not> isChatLoading (chatFulfilled quota_reply initial)"
proof -
  have a: "response quota_reply = None \<or> response quota_reply = Some []"
    by (simp add: quota_reply_def)
  have b: "chat_error quota_reply = Some ''quota exceeded''"
    by (simp add: quota_reply_def)
  have c: "chatMessages initial = []"
    by (simp add: initial_def)
  from chat_error_shape [OF a b, of initial] a b c
  show ?thesis by simp
qed

end
